theory Spec2Isabelle
  imports Complex_Main
begin

section \<open>The map component's state\<close>

text \<open>
  The component \<open>Map\<close> of \<open>src/components/Map.tsx\<close> keeps its data in React state cells
  and changes them from event handlers. The cells the handlers below touch are the fields
  of the record \<open>map_state\<close>; a handler is a function from the state before to the state
  after. Numbers are JavaScript numbers read as reals (no rounding error, no NaN, no
  infinities). A coordinate pair written \<open>[lat, lon]\<close> in the source is a pair
  \<open>(lat, lon)\<close>; a GeoJSON position \<open>[lon, lat]\<close> is a pair \<open>(lon, lat)\<close>.

  What a handler does besides writing state cells (moving the map through \<open>mapRef\<close>,
  starting a nearby-places lookup, asking the routing service) is appended to the field
  \<open>effects\<close>, in call order. \<open>mapRef\<close> is true when \<open>mapRef.current\<close> holds a map that
  has the method called; \<open>initialSelectedPlace\<close> is true when the component was given the
  property of that name.
\<close>

type_synonym latlon = "real \<times> real"
type_synonym lonlat = "real \<times> real"

text \<open>
  A location is a record of the geocoding service, as a search, a reverse lookup or the
  nearby search returns it. \<open>lat\<close> and \<open>lon\<close> arrive as strings and every use goes
  through \<open>parseFloat\<close>, so the fields hold the parsed numbers; \<open>place_type\<close> is the
  property \<open>type\<close>, which a record may lack.
\<close>

record location =
  place_id :: int
  display_name :: string
  place_type :: "string option"
  lat :: real
  lon :: real

record step =
  instruction :: string
  distance_m :: int

text \<open>
  A route as \<open>setRoute\<close> receives it: \<open>coordinates\<close> are GeoJSON positions, \<open>duration\<close>
  is in minutes, \<open>distance_km\<close> is the string that \<open>toFixed(1)\<close> makes of the kilometres.
\<close>

record route =
  coordinates :: "lonlat list"
  duration :: int
  distance_km :: string
  steps :: "step list"

record achievement =
  title :: string
  description_a :: string
  points :: nat

text \<open>
  A place of the recommendations list. Its \<open>id\<close> is a number of a service or the string
  \<open>mock-i\<close>; \<open>location_p\<close> is the object \<open>{lat, lon}\<close>. The labels picked from a list by a
  random index are \<open>None\<close> when the index is outside the list.
\<close>

datatype ident = IdNumber int | IdString string

record place =
  id_p :: ident
  name :: string
  description :: string
  image :: string
  rating :: string
  crowdLevel :: "string option"
  bestTime :: "string option"
  category :: "string option"
  location_p :: latlon
  distance :: real

datatype effect =
    SetView latlon nat
  | FitBounds "latlon list"
  | FetchNearbyPlaces real real
  | FetchRoute string lonlat lonlat

record map_state =
  position :: latlon
  selectedLocation :: "location option"
  route :: "route option"
  transportMode :: string
  userLocation :: "latlon option"
  recommendations :: "place list"
  showRecommendations :: bool
  achievement :: "achievement option"
  locationError :: "string option"
  isLoadingLocation :: bool
  initialSelectedPlace :: bool
  mapRef :: bool
  effects :: "effect list"

definition emit :: "effect \<Rightarrow> map_state \<Rightarrow> map_state" where
  "emit e s = s\<lparr>effects := effects s @ [e]\<rparr>"

definition setView :: "latlon \<Rightarrow> nat \<Rightarrow> map_state \<Rightarrow> map_state" where
  "setView p z s = (if mapRef s then emit (SetView p z) s else s)"

definition fitBounds :: "latlon list \<Rightarrow> map_state \<Rightarrow> map_state" where
  "fitBounds ps s = (if mapRef s then emit (FitBounds ps) s else s)"

subsection \<open>Selecting a destination\<close>

definition handleLocationClick :: "location \<Rightarrow> map_state \<Rightarrow> map_state" where
  "handleLocationClick l s =
     (let newPosition = (lat l, lon l);
          s1 = s\<lparr>selectedLocation := Some l, position := newPosition\<rparr>;
          s2 = setView newPosition 13 s1
      in s2\<lparr>route := None\<rparr>)"

definition handleLocationSelect :: "location \<Rightarrow> map_state \<Rightarrow> map_state" where
  "handleLocationSelect l s =
     (let newPosition = (lat l, lon l);
          s1 = s\<lparr>selectedLocation := Some l, position := newPosition\<rparr>;
          s2 = setView newPosition 13 s1
      in s2\<lparr>route := None\<rparr>)"

subsection \<open>Acquiring the user's position\<close>

text \<open>
  \<open>getUserLocation\<close> asks the browser for the position. The three ways the request ends
  are the constructors of \<open>geo_outcome\<close>: \<open>navigator.geolocation\<close> is missing, the success
  callback runs with the coordinates, or the error callback runs with the error's code
  (1 permission denied, 2 position unavailable, 3 timeout) and message.
\<close>

datatype geo_outcome =
    Unsupported
  | Position real real
  | GeoError nat string

definition defaultLocation :: latlon where
  "defaultLocation = (37.7749, -122.4194)"

definition getUserLocation :: "geo_outcome \<Rightarrow> map_state \<Rightarrow> map_state" where
  "getUserLocation out s =
     (let s0 = s\<lparr>isLoadingLocation := True, locationError := None\<rparr> in
      case out of
        Position la lo \<Rightarrow>
          (let newUserLocation = (la, lo);
               s1 = s0\<lparr>userLocation := Some newUserLocation\<rparr>;
               s2 = (if selectedLocation s = None \<and> \<not> initialSelectedPlace s
                     then setView newUserLocation 13 (s1\<lparr>position := newUserLocation\<rparr>)
                     else s1);
               s3 = s2\<lparr>isLoadingLocation := False\<rparr>
           in emit (FetchNearbyPlaces la lo) s3)
      | GeoError n message \<Rightarrow>
          (let s1 = s0\<lparr>locationError :=
                       Some (''Location error: '' @ message @ ''. Please enable location services.''),
                     isLoadingLocation := False\<rparr>;
               s2 = s1\<lparr>userLocation := Some defaultLocation, position := defaultLocation\<rparr>;
               s3 = setView defaultLocation 13 s2
           in emit (FetchNearbyPlaces (fst defaultLocation) (snd defaultLocation)) s3)
      | Unsupported \<Rightarrow>
          (let s1 = s0\<lparr>locationError := Some ''Geolocation is not supported by this browser'',
                     isLoadingLocation := False\<rparr>;
               s2 = s1\<lparr>userLocation := Some defaultLocation, position := defaultLocation\<rparr>
           in emit (FetchNearbyPlaces (fst defaultLocation) (snd defaultLocation)) s2))"

section \<open>Numbers and geometry\<close>

subsection \<open>JavaScript arithmetic\<close>

text \<open>
  \<open>Math.round\<close> rounds to the nearest integer and a tie upwards; \<open>x % m\<close> is the
  remainder of the division truncated towards zero, so it has the sign of \<open>x\<close>;
  \<open>Math.atan2(y, x)\<close> is the angle of the point \<open>(x, y)\<close>, between \<open>-pi\<close> and \<open>pi\<close>.
  \<open>show_nat\<close> prints a natural number in decimal.

  \<open>x.toFixed(1)\<close> is a string: a minus sign when \<open>x\<close> is negative, then the digits of
  the number of tenths nearest to the magnitude of \<open>x\<close>, the larger number on a tie, with
  a point before the last digit. The digits here are those of the real number; where a
  double lies just below a tie that its decimal notation names (1.45 is such a double),
  the source prints the digit below.
\<close>

definition Math_round :: "real \<Rightarrow> int" where
  "Math_round x = \<lfloor>x + 1 / 2\<rfloor>"

fun show_nat :: "nat \<Rightarrow> string" where
  "show_nat n =
     (if n < 10 then [char_of (48 + n)] else show_nat (n div 10) @ [char_of (48 + n mod 10)])"

declare show_nat.simps [simp del]

definition toFixed1 :: "real \<Rightarrow> string" where
  "toFixed1 x =
     (let n = nat \<lfloor>\<bar>x\<bar> * 10 + 1 / 2\<rfloor>
      in (if x < 0 then ''-'' else []) @ show_nat (n div 10) @ ''.'' @ show_nat (n mod 10))"

definition trunc :: "real \<Rightarrow> int" where
  "trunc x = (if 0 \<le> x then \<lfloor>x\<rfloor> else \<lceil>x\<rceil>)"

definition js_rem :: "real \<Rightarrow> real \<Rightarrow> real" where
  "js_rem x m = x - m * of_int (trunc (x / m))"

definition atan2 :: "real \<Rightarrow> real \<Rightarrow> real" where
  "atan2 y x =
     (if 0 < x then arctan (y / x)
      else if x < 0 then (if 0 \<le> y then arctan (y / x) + pi else arctan (y / x) - pi)
      else if 0 < y then pi / 2
      else if y < 0 then - (pi / 2)
      else 0)"

subsection \<open>The component's own distance\<close>

definition calculateDistance :: "real \<Rightarrow> real \<Rightarrow> real \<Rightarrow> real \<Rightarrow> real" where
  "calculateDistance lat1 lon1 lat2 lon2 =
     (let R = 6371;
          dLat = (lat2 - lat1) * pi / 180;
          dLon = (lon2 - lon1) * pi / 180;
          a = sin (dLat / 2) * sin (dLat / 2)
              + cos (lat1 * pi / 180) * cos (lat2 * pi / 180)
                * sin (dLon / 2) * sin (dLon / 2);
          c = 2 * atan2 (sqrt a) (sqrt (1 - a))
      in R * c)"

subsection \<open>The geometry library\<close>

text \<open>
  The route fallback and the mock places call the library \<open>@turf/turf\<close>, which is a
  dependency of the repository and not part of it. The functions called are \<open>length\<close>,
  \<open>along\<close> and \<open>destination\<close>, all with \<open>units: 'kilometers'\<close>; they are written here
  after the library's published source (releases 5 to 7), with its mean earth radius of
  6371008.8 metres. Positions are GeoJSON positions \<open>(lon, lat)\<close> in degrees. A call that
  throws in the library returns \<open>None\<close> here.
\<close>

definition earthRadius :: real where
  "earthRadius = 6371008.8"

definition factor_kilometers :: real where
  "factor_kilometers = earthRadius / 1000"

definition degreesToRadians :: "real \<Rightarrow> real" where
  "degreesToRadians degrees = js_rem degrees 360 * pi / 180"

definition radiansToDegrees :: "real \<Rightarrow> real" where
  "radiansToDegrees radians = js_rem radians (2 * pi) * 180 / pi"

definition radiansToLength :: "real \<Rightarrow> real" where
  "radiansToLength radians = radians * factor_kilometers"

definition lengthToRadians :: "real \<Rightarrow> real" where
  "lengthToRadians d = d / factor_kilometers"

definition turf_distance :: "lonlat \<Rightarrow> lonlat \<Rightarrow> real" where
  "turf_distance p q =
     (let dLat = degreesToRadians (snd q - snd p);
          dLon = degreesToRadians (fst q - fst p);
          lat1 = degreesToRadians (snd p);
          lat2 = degreesToRadians (snd q);
          a = (sin (dLat / 2))\<^sup>2 + (sin (dLon / 2))\<^sup>2 * cos lat1 * cos lat2
      in radiansToLength (2 * atan2 (sqrt a) (sqrt (1 - a))))"

text \<open>\<open>length\<close> adds up the distances of the consecutive pairs of positions of a line.\<close>

fun turf_length :: "lonlat list \<Rightarrow> real" where
  "turf_length (p # q # ps) = turf_distance p q + turf_length (q # ps)"
| "turf_length _ = 0"

definition turf_bearing :: "lonlat \<Rightarrow> lonlat \<Rightarrow> real" where
  "turf_bearing p q =
     (let lon1 = degreesToRadians (fst p);
          lon2 = degreesToRadians (fst q);
          lat1 = degreesToRadians (snd p);
          lat2 = degreesToRadians (snd q);
          a = sin (lon2 - lon1) * cos lat2;
          b = cos lat1 * sin lat2 - sin lat1 * cos lat2 * cos (lon2 - lon1)
      in radiansToDegrees (atan2 a b))"

definition turf_destination :: "lonlat \<Rightarrow> real \<Rightarrow> real \<Rightarrow> lonlat" where
  "turf_destination origin d bearing =
     (let longitude1 = degreesToRadians (fst origin);
          latitude1 = degreesToRadians (snd origin);
          bearingRad = degreesToRadians bearing;
          radians = lengthToRadians d;
          latitude2 = arcsin (sin latitude1 * cos radians
                              + cos latitude1 * sin radians * cos bearingRad);
          longitude2 = longitude1
                       + atan2 (sin bearingRad * sin radians * cos latitude1)
                               (cos radians - sin latitude1 * sin latitude2)
      in (radiansToDegrees longitude2, radiansToDegrees latitude2))"

text \<open>
  \<open>along\<close> walks the line from its first position, adding up the lengths of the segments
  in \<open>travelled\<close>; \<open>along_loop\<close> is its \<open>for\<close> loop at index \<open>i\<close>. Reading the position
  before the first one, or the last position of an empty line, throws.
\<close>

function along_loop :: "lonlat list \<Rightarrow> real \<Rightarrow> nat \<Rightarrow> real \<Rightarrow> lonlat option" where
  "along_loop coords d i travelled =
     (if i < length coords then
        if travelled \<le> d \<and> i = length coords - 1 then Some (coords ! (length coords - 1))
        else if d \<le> travelled then
          (let overshot = d - travelled in
           if overshot = 0 then Some (coords ! i)
           else if i = 0 then None
           else Some (turf_destination (coords ! i) overshot
                        (turf_bearing (coords ! i) (coords ! (i - 1)) - 180)))
        else along_loop coords d (i + 1) (travelled + turf_distance (coords ! i) (coords ! (i + 1)))
      else if coords = [] then None
      else Some (coords ! (length coords - 1)))"
  by pat_completeness auto
termination
  by (relation "measure (\<lambda>(coords, d, i, travelled). length coords - i)") auto

declare along_loop.simps [simp del]

definition turf_along :: "lonlat list \<Rightarrow> real \<Rightarrow> lonlat option" where
  "turf_along line d = along_loop line d 0 0"

section \<open>Directions\<close>

text \<open>
  \<open>handleGetDirections\<close> asks the routing service, for the profile that \<open>osrm_profile\<close>
  gives the transport mode, and continues when the answer is there. \<open>Threw\<close> is an answer that makes the \<open>try\<close> block throw before its \<open>if\<close>: the request
  fails or the body is not JSON. \<open>Got data\<close> is a parsed body; \<open>routes\<close> is \<open>None\<close> when
  the body has no such property, and \<open>geometry\<close> of a route is \<open>None\<close> when reading
  \<open>route.geometry.coordinates\<close> throws. On a mounted map \<open>fitBounds\<close> throws for the
  bounds of no point at all; this happens after \<open>setRoute\<close> and before \<open>setAchievement\<close>,
  and the \<open>catch\<close> block then runs the fallback.
\<close>

datatype 'a fetched = Threw | Got 'a

record osrm_route =
  geometry :: "lonlat list option"
  duration_s :: real
  distance_meters :: real

record osrm_data =
  code :: string
  routes :: "osrm_route list option"

text \<open>\<open>s.split(c)\<close> for a separator of one character, and \<open>s.split(',')[0]\<close>.\<close>

fun split_on :: "char \<Rightarrow> string \<Rightarrow> string list" where
  "split_on c [] = ['''']"
| "split_on c (x # xs) =
     (if x = c then [] # split_on c xs
      else (case split_on c xs of [] \<Rightarrow> [x] # [] | w # ws \<Rightarrow> (x # w) # ws))"

definition split_first :: "string \<Rightarrow> string" where
  "split_first s = (case split_on (CHR '','') s of [] \<Rightarrow> [] | w # ws \<Rightarrow> w)"

definition route_planner :: achievement where
  "route_planner = \<lparr>title = ''Route Planner'',
     description_a = ''Successfully planned your first route!'', points = 50\<rparr>"

definition swap_pair :: "real \<times> real \<Rightarrow> real \<times> real" where
  "swap_pair c = (snd c, fst c)"

text \<open>
  The straight-line fallback. If the library throws while the path is sampled, the
  exception leaves \<open>simulateRoute\<close> before any state cell is written.
\<close>

definition simulateRoute :: "map_state \<Rightarrow> map_state" where
  "simulateRoute s =
     (case (userLocation s, selectedLocation s) of
        (Some u, Some l) \<Rightarrow>
          (let startPoint = (snd u, fst u);
               endPoint = (lon l, lat l);
               line = [startPoint, endPoint];
               dist = turf_length line;
               nsteps = max 5 \<lfloor>dist / 0.5\<rfloor>;
               sampled = map (\<lambda>i. turf_along line (dist * (of_nat i / of_int nsteps)))
                             [0 ..< nat nsteps + 1]
           in if None \<in> set sampled then s
              else
                (let coords = map the sampled;
                     s1 = s\<lparr>route := Some \<lparr>coordinates = coords,
                              duration = Math_round (dist * 3),
                              distance_km = toFixed1 dist,
                              steps = [\<lparr>instruction = ''Head to '' @ split_first (display_name l),
                                        distance_m = Math_round (dist * 1000)\<rparr>]\<rparr>\<rparr>;
                     s2 = fitBounds (map swap_pair coords) s1
                 in s2\<lparr>achievement := Some route_planner\<rparr>))
      | _ \<Rightarrow> s)"

definition osrm_profile :: "string \<Rightarrow> string" where
  "osrm_profile mode =
     (if mode = ''driving-car'' then ''car'' else if mode = ''cycling'' then ''bike'' else ''foot'')"

definition handleGetDirections :: "osrm_data fetched \<Rightarrow> map_state \<Rightarrow> map_state" where
  "handleGetDirections response s =
     (case (userLocation s, selectedLocation s) of
        (Some u, Some l) \<Rightarrow>
          (let s0 = emit (FetchRoute (osrm_profile (transportMode s))
                            (snd u, fst u) (lon l, lat l)) s
           in case response of
             Threw \<Rightarrow> simulateRoute s0
           | Got data \<Rightarrow>
               (case (if code data = ''Ok'' then routes data else None) of
                  Some (r # rs) \<Rightarrow>
                    (case geometry r of
                       None \<Rightarrow> simulateRoute s0
                     | Some coords \<Rightarrow>
                         (let s1 = s0\<lparr>route := Some \<lparr>coordinates = coords,
                                    duration = Math_round (duration_s r / 60),
                                    distance_km = toFixed1 (distance_meters r / 1000),
                                    steps = [\<lparr>instruction = ''Head to your destination'',
                                              distance_m = Math_round (distance_meters r)\<rparr>]\<rparr>\<rparr>
                          in if mapRef s1 \<and> coords = [] then simulateRoute s1
                             else (let s2 = fitBounds (map swap_pair coords) s1
                                   in s2\<lparr>achievement := Some route_planner\<rparr>)))
                | _ \<Rightarrow> s0))
      | _ \<Rightarrow> s)"

section \<open>Nearby places\<close>

text \<open>
  \<open>fetchNearbyPlaces\<close> asks the feature service, \<open>fallbackToNominatim\<close> the geocoding
  service, and \<open>createMockPlaces\<close> invents places. For a lookup \<open>Threw\<close> is a request
  that fails, an answer that is not \<open>ok\<close>, or a body that is not JSON; \<open>Got xs\<close> is the
  list \<open>data.elements\<close> (the empty list when the body has none), or the array the
  geocoding service returns. \<open>rnd k\<close> is what the \<open>k\<close>-th call of \<open>Math.random\<close> of the
  lookup returns, counted from 0.
\<close>

subsection \<open>JavaScript values\<close>

text \<open>
  A feature's \<open>tags\<close> map keys to strings. \<open>tag t k\<close> is the value of \<open>t[k]\<close> when it is
  truthy, that is present and not the empty string. \<open>num_or x d\<close> is \<open>x || d\<close> for a number
  \<open>x\<close> that may be missing: 0 is falsy. \<open>pick xs r\<close> is \<open>xs[Math.floor(r * n)]\<close> for the
  list's length \<open>n\<close>. \<open>toUpperCase\<close> changes the letters a to z only.
\<close>

definition tag :: "(string \<rightharpoonup> string) \<Rightarrow> string \<Rightarrow> string option" where
  "tag t k = (case t k of None \<Rightarrow> None | Some v \<Rightarrow> if v = [] then None else Some v)"

definition num_or :: "real option \<Rightarrow> real \<Rightarrow> real" where
  "num_or x d = (case x of None \<Rightarrow> d | Some v \<Rightarrow> if v = 0 then d else v)"

definition pick :: "'a list \<Rightarrow> real \<Rightarrow> 'a option" where
  "pick xs r =
     (let i = \<lfloor>r * real (length xs)\<rfloor>
      in if 0 \<le> i \<and> nat i < length xs then Some (xs ! nat i) else None)"

definition toUpperCase :: "char \<Rightarrow> char" where
  "toUpperCase c =
     (let n = (of_char c :: nat) in if 97 \<le> n \<and> n \<le> 122 then char_of (n - 32) else c)"

definition capitalize :: "string \<Rightarrow> string" where
  "capitalize s = (case s of [] \<Rightarrow> [] | c # cs \<Rightarrow> toUpperCase c # cs)"

definition placeholder_image :: string where
  "placeholder_image =
     ''https://images.unsplash.com/photo-1564507592333-c60657eea523?auto=format&fit=crop&q=80&w=300''"

definition crowd_levels :: "string list" where
  "crowd_levels = [''Less crowded'', ''Moderate'', ''Busy'']"

definition best_times :: "string list" where
  "best_times = [''Morning'', ''Afternoon'', ''Evening'']"

subsection \<open>First tier: the feature service\<close>

record element =
  id_e :: int
  tags :: "(string \<rightharpoonup> string) option"
  lat_e :: "real option"
  lon_e :: "real option"
  center :: "latlon option"

text \<open>The predicate of \<open>.filter\<close>.\<close>

definition retained :: "element \<Rightarrow> bool" where
  "retained e =
     (case tags e of
        None \<Rightarrow> False
      | Some t \<Rightarrow> tag t ''name'' \<noteq> None \<or> tag t ''tourism'' \<noteq> None
                  \<or> tag t ''historic'' \<noteq> None \<or> tag t ''amenity'' \<noteq> None)"

text \<open>
  The callback of \<open>.map\<close>, for the element at \<open>index\<close> of the filtered and cut list; it
  calls \<open>Math.random\<close> three times.
\<close>

definition overpassPlace :: "(nat \<Rightarrow> real) \<Rightarrow> real \<Rightarrow> real \<Rightarrow> nat \<Rightarrow> element \<Rightarrow> place" where
  "overpassPlace rnd lat0 lon0 index e =
     (let t = (case tags e of None \<Rightarrow> Map.empty | Some t \<Rightarrow> t);
          nm = (case tag t ''name'' of Some v \<Rightarrow> v | None \<Rightarrow>
                (case tag t ''tourism'' of Some v \<Rightarrow> capitalize v | None \<Rightarrow>
                 (case tag t ''historic'' of Some v \<Rightarrow> capitalize v | None \<Rightarrow>
                  (case tag t ''amenity'' of Some v \<Rightarrow> capitalize v | None \<Rightarrow>
                   ''Place '' @ show_nat (index + 1)))));
          cat = (case tag t ''tourism'' of Some v \<Rightarrow> v | None \<Rightarrow>
                 (case tag t ''historic'' of Some v \<Rightarrow> v | None \<Rightarrow>
                  (case tag t ''amenity'' of Some v \<Rightarrow> v | None \<Rightarrow> ''Point of Interest'')));
          la = num_or (lat_e e) (case center e of Some c \<Rightarrow> fst c | None \<Rightarrow> lat0);
          lo = num_or (lon_e e) (case center e of Some c \<Rightarrow> snd c | None \<Rightarrow> lon0)
      in \<lparr>id_p = IdNumber (id_e e),
          name = nm,
          description = capitalize cat,
          image = placeholder_image,
          rating = toFixed1 (rnd (3 * index) * 2 + 3),
          crowdLevel = pick crowd_levels (rnd (3 * index + 1)),
          bestTime = pick best_times (rnd (3 * index + 2)),
          category = Some (capitalize cat),
          location_p = (la, lo),
          distance = calculateDistance lat0 lon0 la lo\<rparr>)"

subsection \<open>Second tier: the geocoding service\<close>

text \<open>The callback of \<open>.map\<close>; it calls \<open>Math.random\<close> four times.\<close>

definition nominatimPlace :: "(nat \<Rightarrow> real) \<Rightarrow> real \<Rightarrow> real \<Rightarrow> nat \<Rightarrow> location \<Rightarrow> place" where
  "nominatimPlace rnd lat0 lon0 index p =
     \<lparr>id_p = IdNumber (place_id p),
      name = split_first (display_name p),
      description = (case place_type p of
                       None \<Rightarrow> ''Tourist Attraction''
                     | Some ty \<Rightarrow> if ty = [] then ''Tourist Attraction'' else ty),
      image = placeholder_image,
      rating = toFixed1 (rnd (4 * index) * 2 + 3),
      crowdLevel = pick crowd_levels (rnd (4 * index + 1)),
      bestTime = pick best_times (rnd (4 * index + 2)),
      category = pick [''Historical'', ''Cultural'', ''Nature''] (rnd (4 * index + 3)),
      location_p = (lat p, lon p),
      distance = calculateDistance lat0 lon0 (lat p) (lon p)\<rparr>"

subsection \<open>Third tier: mock places\<close>

text \<open>The body of the \<open>for\<close> loop at \<open>i\<close>; it calls \<open>Math.random\<close> five times.\<close>

definition mockPlace :: "(nat \<Rightarrow> real) \<Rightarrow> real \<Rightarrow> real \<Rightarrow> nat \<Rightarrow> place" where
  "mockPlace rnd lat0 lon0 i =
     (let d = 0.5 + rnd (5 * i) * 4.5;
          bearing = rnd (5 * i + 1) * 360;
          coords = turf_destination (lon0, lat0) d bearing
      in \<lparr>id_p = IdString (''mock-'' @ show_nat i),
          name = [''Central Park'', ''Museum of Art'', ''Historic Tower'', ''Botanical Garden'',
                  ''City Square''] ! i,
          description = [''Nature'', ''Cultural'', ''Historical'', ''Nature'', ''Entertainment''] ! i,
          image = placeholder_image,
          rating = toFixed1 (rnd (5 * i + 2) * 2 + 3),
          crowdLevel = pick crowd_levels (rnd (5 * i + 3)),
          bestTime = pick best_times (rnd (5 * i + 4)),
          category = Some ([''Park'', ''Museum'', ''Monument'', ''Garden'', ''Plaza''] ! i),
          location_p = (snd coords, fst coords),
          distance = d\<rparr>)"

definition createMockPlaces :: "(nat \<Rightarrow> real) \<Rightarrow> real \<Rightarrow> real \<Rightarrow> map_state \<Rightarrow> map_state" where
  "createMockPlaces rnd lat0 lon0 s =
     (let mockPlaces = map (mockPlace rnd lat0 lon0) [0 ..< 5]
      in s\<lparr>recommendations := mockPlaces, showRecommendations := True\<rparr>)"

subsection \<open>The cascade\<close>

text \<open>\<open>enumerate_map f xs\<close> is \<open>xs.map((x, index) => f(index, x))\<close>.\<close>

definition enumerate_map :: "(nat \<Rightarrow> 'a \<Rightarrow> 'b) \<Rightarrow> 'a list \<Rightarrow> 'b list" where
  "enumerate_map f xs = map (\<lambda>(i, x). f i x) (zip [0 ..< length xs] xs)"

definition fallbackToNominatim ::
  "(nat \<Rightarrow> real) \<Rightarrow> location list fetched \<Rightarrow> real \<Rightarrow> real \<Rightarrow> map_state \<Rightarrow> map_state" where
  "fallbackToNominatim rnd answer lat0 lon0 s =
     (case answer of
        Threw \<Rightarrow> createMockPlaces rnd lat0 lon0 s
      | Got data \<Rightarrow>
          if 0 < length data then
            (let places = enumerate_map (nominatimPlace rnd lat0 lon0) data
             in s\<lparr>recommendations := sort_key distance places, showRecommendations := True\<rparr>)
          else createMockPlaces rnd lat0 lon0 s)"

definition fetchNearbyPlaces ::
  "(nat \<Rightarrow> real) \<Rightarrow> element list fetched \<Rightarrow> location list fetched \<Rightarrow> real \<Rightarrow> real
     \<Rightarrow> map_state \<Rightarrow> map_state" where
  "fetchNearbyPlaces rnd answer answer2 lat0 lon0 s =
     (case answer of
        Threw \<Rightarrow> fallbackToNominatim rnd answer2 lat0 lon0 s
      | Got elements \<Rightarrow>
          if 0 < length elements then
            (let places = enumerate_map (overpassPlace rnd lat0 lon0)
                            (take 10 (filter retained elements))
             in s\<lparr>recommendations := sort_key distance places, showRecommendations := True\<rparr>)
          else fallbackToNominatim rnd answer2 lat0 lon0 s)"

section \<open>States to run the handlers on\<close>

text \<open>Nothing selected, nothing located, a mounted map.\<close>

definition state0 :: map_state where
  "state0 = \<lparr>position = (20.5937, 78.9629), selectedLocation = None, route = None,
     transportMode = ''driving-car'', userLocation = None, recommendations = [],
     showRecommendations = False, achievement = None,
     locationError = None, isLoadingLocation = False, initialSelectedPlace = False,
     mapRef = True, effects = []\<rparr>"

definition oakland :: location where
  "oakland = \<lparr>place_id = 297054975, display_name = ''Oakland, Alameda County, California'',
     place_type = Some ''city'', lat = 37.8044, lon = -122.2712\<rparr>"

text \<open>The same state with a user location and a selected destination.\<close>

definition trip :: "latlon \<Rightarrow> location \<Rightarrow> map_state" where
  "trip u l = state0\<lparr>userLocation := Some u, selectedLocation := Some l\<rparr>"

definition on_equator :: "real \<Rightarrow> location" where
  "on_equator q = \<lparr>place_id = 1, display_name = ''Equator, Ocean'', place_type = None,
     lat = 0, lon = q\<rparr>"

text \<open>
  Draws of \<open>Math.random\<close>, features of the feature service and a record of the geocoding
  service to run the lookups on.
\<close>

definition far_then_near :: "nat \<Rightarrow> real" where
  "far_then_near k = (if k = 0 then 0.9 else 0.1)"

definition unnamed_park :: element where
  "unnamed_park = \<lparr>id_e = 7, tags = Some [''leisure'' \<mapsto> ''park''],
     lat_e = Some 37.77, lon_e = Some (-122.42), center = None\<rparr>"

definition louvre :: location where
  "louvre = \<lparr>place_id = 42, display_name = ''Louvre, Paris, France'',
     place_type = Some ''museum'', lat = 48.8606, lon = 2.3376\<rparr>"

definition way_node :: element where
  "way_node = \<lparr>id_e = 9, tags = None, lat_e = Some 37.775, lon_e = Some (-122.419),
     center = None\<rparr>"

definition corner_cafe :: element where
  "corner_cafe = \<lparr>id_e = 8, tags = Some [''amenity'' \<mapsto> ''cafe''],
     lat_e = Some 37.78, lon_e = Some (-122.41), center = None\<rparr>"

section \<open>Properties\<close>

lemma effects_setView:
  "effects (setView p z s) = effects s @ (if mapRef s then [SetView p z] else [])"
  by (simp add: setView_def emit_def)

lemma setView_fields [simp]:
  "userLocation (setView p z s) = userLocation s"
  "locationError (setView p z s) = locationError s"
  "isLoadingLocation (setView p z s) = isLoadingLocation s"
  "selectedLocation (setView p z s) = selectedLocation s"
  "route (setView p z s) = route s"
  "position (setView p z s) = position s"
  by (simp_all add: setView_def emit_def)

lemma emit_fields [simp]:
  "userLocation (emit e s) = userLocation s"
  "locationError (emit e s) = locationError s"
  "isLoadingLocation (emit e s) = isLoadingLocation s"
  "selectedLocation (emit e s) = selectedLocation s"
  "route (emit e s) = route s"
  "position (emit e s) = position s"
  "effects (emit e s) = effects s @ [e]"
  by (simp_all add: emit_def)

text \<open>
  C8. When acquiring the position fails, by the error callback (permission denied,
  timeout, position unavailable) or because the browser has no geolocation, the user
  location becomes the fixed coordinate (37.7749, -122.4194), an error string naming the
  failure is set, loading ends, and the last thing the handler does is to start the
  nearby-places lookup for that coordinate.
\<close>

theorem getUserLocation_failure:
  "userLocation (getUserLocation (GeoError n message) s) = Some (37.7749, -122.4194)
   \<and> locationError (getUserLocation (GeoError n message) s)
       = Some (''Location error: '' @ message @ ''. Please enable location services.'')
   \<and> \<not> isLoadingLocation (getUserLocation (GeoError n message) s)
   \<and> last (effects (getUserLocation (GeoError n message) s))
       = FetchNearbyPlaces 37.7749 (-122.4194)
   \<and> userLocation (getUserLocation Unsupported s) = Some (37.7749, -122.4194)
   \<and> locationError (getUserLocation Unsupported s)
       = Some ''Geolocation is not supported by this browser''
   \<and> \<not> isLoadingLocation (getUserLocation Unsupported s)
   \<and> last (effects (getUserLocation Unsupported s))
       = FetchNearbyPlaces 37.7749 (-122.4194)"
  by (simp add: getUserLocation_def defaultLocation_def Let_def)

theorem getUserLocation_failure_witness:
  "userLocation (getUserLocation (GeoError 1 ''User denied Geolocation'') state0)
     = Some (37.7749, -122.4194)
   \<and> locationError (getUserLocation (GeoError 1 ''User denied Geolocation'') state0)
     = Some ''Location error: User denied Geolocation. Please enable location services.''
   \<and> effects (getUserLocation (GeoError 1 ''User denied Geolocation'') state0)
     = [SetView (37.7749, -122.4194) 13, FetchNearbyPlaces 37.7749 (-122.4194)]
   \<and> effects (getUserLocation Unsupported state0) = [FetchNearbyPlaces 37.7749 (-122.4194)]"
  using getUserLocation_failure [of 1 "''User denied Geolocation''" state0]
  by (simp add: getUserLocation_def defaultLocation_def Let_def state0_def effects_setView)

text \<open>
  C9. After a destination is selected, from a search result (\<open>handleLocationSelect\<close>) or
  from a click on the map (\<open>handleLocationClick\<close>), there is no current route, whatever
  route there was before; the selected place is the destination and the view centre.
\<close>

theorem selection_clears_route:
  "route (handleLocationSelect l s) = None
   \<and> route (handleLocationClick l s) = None
   \<and> selectedLocation (handleLocationSelect l s) = Some l
   \<and> selectedLocation (handleLocationClick l s) = Some l
   \<and> position (handleLocationSelect l s) = (lat l, lon l)
   \<and> position (handleLocationClick l s) = (lat l, lon l)"
  by (simp add: handleLocationSelect_def handleLocationClick_def Let_def)

theorem selection_clears_route_witness:
  "route (handleLocationSelect oakland
      (state0\<lparr>route := Some \<lparr>coordinates = [(0, 0), (1, 1)], duration = 5,
                              distance_km = ''1.5'', steps = []\<rparr>\<rparr>)) = None
   \<and> route (handleLocationClick oakland
      (state0\<lparr>route := Some \<lparr>coordinates = [(0, 0), (1, 1)], duration = 5,
                              distance_km = ''1.5'', steps = []\<rparr>\<rparr>)) = None"
  using selection_clears_route [of oakland
      "state0\<lparr>route := Some \<lparr>coordinates = [(0, 0), (1, 1)], duration = 5,
                               distance_km = ''1.5'', steps = []\<rparr>\<rparr>"]
  by simp

subsection \<open>Bounds on pi\<close>

text \<open>
  The partial sums of the arctangent series enclose the arctangent; with Machin's formula
  they enclose \<open>pi\<close> closely enough to round the distances below.
\<close>

lemma arctan_between:
  fixes x :: real
  assumes "0 < x" "x \<le> 1"
  shows "(\<Sum>k<2 * n. (- 1) ^ k * (1 / real (k * 2 + 1) * x ^ (k * 2 + 1))) \<le> arctan x"
    and "arctan x \<le> (\<Sum>k<2 * n + 1. (- 1) ^ k * (1 / real (k * 2 + 1) * x ^ (k * 2 + 1)))"
proof -
  have ax: "\<bar>x\<bar> \<le> 1" using assms by simp
  have pos: "0 < 1 / real (0 * 2 + 1) * x ^ (0 * 2 + 1)" using assms by simp
  from summable_Leibniz(2)[OF zeroseq_arctan_series[OF ax] monoseq_arctan_series[OF ax]] pos
  have "(\<Sum>k. (- 1) ^ k * (1 / real (k * 2 + 1) * x ^ (k * 2 + 1)))
      \<in> {\<Sum>k<2 * n. (- 1) ^ k * (1 / real (k * 2 + 1) * x ^ (k * 2 + 1)) ..
         \<Sum>k<2 * n + 1. (- 1) ^ k * (1 / real (k * 2 + 1) * x ^ (k * 2 + 1))}"
    by blast
  then show "(\<Sum>k<2 * n. (- 1) ^ k * (1 / real (k * 2 + 1) * x ^ (k * 2 + 1))) \<le> arctan x"
    and "arctan x \<le> (\<Sum>k<2 * n + 1. (- 1) ^ k * (1 / real (k * 2 + 1) * x ^ (k * 2 + 1)))"
    using arctan_series[OF ax] by simp_all
qed

lemma pi_bounds: "3.14159265 \<le> pi" "pi \<le> 3.14159266"
proof -
  have m: "pi = 16 * arctan (1 / 5) - 4 * arctan (1 / 239)"
    using machin by simp
  have l5: "(\<Sum>k<2 * 3. (- 1) ^ k * (1 / real (k * 2 + 1) * (1 / 5) ^ (k * 2 + 1))) \<le> arctan (1 / 5)"
    by (rule arctan_between(1)) simp_all
  have u5: "arctan (1 / 5) \<le> (\<Sum>k<2 * 3 + 1. (- 1) ^ k * (1 / real (k * 2 + 1) * (1 / 5) ^ (k * 2 + 1)))"
    by (rule arctan_between(2)) simp_all
  have l239: "(\<Sum>k<2 * 1. (- 1) ^ k * (1 / real (k * 2 + 1) * (1 / 239) ^ (k * 2 + 1))) \<le> arctan (1 / 239)"
    by (rule arctan_between(1)) simp_all
  have u239: "arctan (1 / 239) \<le> (\<Sum>k<2 * 1 + 1. (- 1) ^ k * (1 / real (k * 2 + 1) * (1 / 239) ^ (k * 2 + 1)))"
    by (rule arctan_between(2)) simp_all
  show "3.14159265 \<le> pi"
    using l5 u239 unfolding m by (simp add: eval_nat_numeral)
  show "pi \<le> 3.14159266"
    using u5 l239 unfolding m by (simp add: eval_nat_numeral)
qed

subsection \<open>The two distance functions\<close>

lemma js_rem_small: "0 < m \<Longrightarrow> \<bar>x\<bar> < m \<Longrightarrow> js_rem x m = x"
proof -
  assume m: "0 < m" and x: "\<bar>x\<bar> < m"
  have "trunc (x / m) = 0"
  proof (cases "0 \<le> x")
    case True
    then have "0 \<le> x / m" "x / m < 1" using m x by simp_all
    then show ?thesis by (simp add: trunc_def floor_eq_iff)
  next
    case False
    then have "x / m < 0" "- 1 < x / m" using m x by (simp_all add: field_simps)
    then show ?thesis by (simp add: trunc_def ceiling_eq_iff)
  qed
  then show ?thesis by (simp add: js_rem_def)
qed

lemma js_rem_self: "m \<noteq> 0 \<Longrightarrow> js_rem m m = 0" "m \<noteq> 0 \<Longrightarrow> js_rem (- m) m = 0"
  by (simp_all add: js_rem_def trunc_def)

lemma hav_angle:
  assumes "0 \<le> t" "t < pi / 2"
  shows "atan2 (sqrt ((sin t)\<^sup>2)) (sqrt (1 - (sin t)\<^sup>2)) = t"
proof -
  have s: "0 \<le> sin t" using assms by (intro sin_ge_zero) simp_all
  have c: "0 < cos t" using assms by (intro cos_gt_zero_pi) simp_all
  have "1 - (sin t)\<^sup>2 = (cos t)\<^sup>2" by (simp add: cos_squared_eq)
  then have "atan2 (sqrt ((sin t)\<^sup>2)) (sqrt (1 - (sin t)\<^sup>2)) = atan2 (sin t) (cos t)"
    using s c by simp
  also have "\<dots> = arctan (tan t)" using c by (simp add: atan2_def tan_def)
  also have "\<dots> = t" using assms by (intro arctan_tan) simp_all
  finally show ?thesis .
qed

lemma sin_half_wrap:
  assumes "\<bar>x\<bar> \<le> 360"
  shows "(sin (degreesToRadians x / 2))\<^sup>2 = (sin (x * pi / 180 / 2))\<^sup>2"
proof (cases "\<bar>x\<bar> < 360")
  case True
  then show ?thesis by (simp add: degreesToRadians_def js_rem_small)
next
  case False
  then have "x = 360 \<or> x = - 360" using assms by linarith
  then show ?thesis
    by (auto simp add: degreesToRadians_def js_rem_self)
qed

lemma turf_distance_calculateDistance:
  assumes "\<bar>lat1\<bar> \<le> 90" "\<bar>lat2\<bar> \<le> 90" "\<bar>lon1\<bar> \<le> 180" "\<bar>lon2\<bar> \<le> 180"
  shows "turf_distance (lon1, lat1) (lon2, lat2)
         = 6371.0088 / 6371 * calculateDistance lat1 lon1 lat2 lon2"
proof -
  have a: "degreesToRadians lat1 = lat1 * pi / 180" "degreesToRadians lat2 = lat2 * pi / 180"
    using assms by (simp_all add: degreesToRadians_def js_rem_small)
  have b: "(sin (degreesToRadians (lat2 - lat1) / 2))\<^sup>2 = (sin ((lat2 - lat1) * pi / 180 / 2))\<^sup>2"
    using assms by (intro sin_half_wrap) linarith
  have c: "(sin (degreesToRadians (lon2 - lon1) / 2))\<^sup>2 = (sin ((lon2 - lon1) * pi / 180 / 2))\<^sup>2"
    using assms by (intro sin_half_wrap) linarith
  show ?thesis
    unfolding turf_distance_def calculateDistance_def Let_def fst_conv snd_conv b c a
    by (simp add: radiansToLength_def factor_kilometers_def earthRadius_def power2_eq_square
        mult.commute mult.left_commute mult.assoc)
qed

lemma along_two:
  "0 \<le> d \<Longrightarrow> turf_along [p, q] d =
     Some (if d = 0 then p
           else if turf_distance p q \<le> d then q
           else turf_destination q (d - turf_distance p q) (turf_bearing q p - 180))"
  by (simp add: turf_along_def along_loop.simps[of "[p, q]" d 0]
      along_loop.simps[of "[p, q]" d "Suc 0"])

lemma atan2_nonneg: "0 \<le> y \<Longrightarrow> 0 \<le> atan2 y x"
proof -
  assume y: "0 \<le> y"
  consider "0 < x" | "x < 0" | "x = 0" by linarith
  then show ?thesis
  proof cases
    case 1
    then show ?thesis using y by (simp add: atan2_def)
  next
    case 2
    have "- (pi / 2) < arctan (y / x)" by (rule arctan_lbound)
    then have "0 \<le> arctan (y / x) + pi" using pi_gt_zero by linarith
    then show ?thesis using 2 y by (simp add: atan2_def)
  next
    case 3
    then show ?thesis using y by (simp add: atan2_def)
  qed
qed

lemma degrees_quarter:
  assumes "\<bar>x\<bar> \<le> 90"
  shows "- (pi / 2) \<le> x * pi / 180" "x * pi / 180 \<le> pi / 2"
proof -
  have "- 90 \<le> x" "x \<le> 90" using assms by simp_all
  then have "- 90 * pi \<le> x * pi" "x * pi \<le> 90 * pi"
    by (simp_all only: mult_right_mono pi_ge_zero)
  then show "- (pi / 2) \<le> x * pi / 180" "x * pi / 180 \<le> pi / 2" by simp_all
qed

lemma cos_degrees_nonneg: "\<bar>x\<bar> \<le> 90 \<Longrightarrow> 0 \<le> cos (degreesToRadians x)"
proof -
  assume x: "\<bar>x\<bar> \<le> 90"
  then have "degreesToRadians x = x * pi / 180"
    by (simp add: degreesToRadians_def js_rem_small)
  moreover have "0 \<le> cos (x * pi / 180)"
    using degrees_quarter[OF x] by (rule cos_ge_zero)
  ultimately show ?thesis by (simp only:)
qed

lemma turf_distance_nonneg:
  assumes "\<bar>snd p\<bar> \<le> 90" "\<bar>snd q\<bar> \<le> 90"
  shows "0 \<le> turf_distance p q"
proof -
  have "0 \<le> cos (degreesToRadians (snd p)) * cos (degreesToRadians (snd q))"
    using assms by (simp add: cos_degrees_nonneg)
  then have "0 \<le> (sin (degreesToRadians (snd q - snd p) / 2))\<^sup>2 +
             (sin (degreesToRadians (fst q - fst p) / 2))\<^sup>2 *
             cos (degreesToRadians (snd p)) * cos (degreesToRadians (snd q))"
    by (simp add: mult.assoc)
  then show ?thesis
    by (simp add: turf_distance_def Let_def radiansToLength_def factor_kilometers_def
      earthRadius_def atan2_nonneg)
qed

lemma degreesToRadians_0 [simp]: "degreesToRadians 0 = 0"
  by (simp add: degreesToRadians_def js_rem_def trunc_def)

lemma equator_angle:
  assumes "0 \<le> q" "q < 180"
  shows "q * pi / 180 / 2 < pi / 2" "0 \<le> q * pi / 180 / 2"
proof -
  have "q * pi < 180 * pi" using assms by (simp only: mult_strict_right_mono pi_gt_zero)
  then show "q * pi / 180 / 2 < pi / 2" by simp
  show "0 \<le> q * pi / 180 / 2" using assms by simp
qed

lemma calculateDistance_equator:
  assumes "0 \<le> q" "q < 180"
  shows "calculateDistance 0 0 0 q = 6371 * (q * pi / 180)"
proof -
  define t where "t = q * pi / 180 / 2"
  have h: "atan2 (sqrt ((sin t)\<^sup>2)) (sqrt (1 - (sin t)\<^sup>2)) = t"
    unfolding t_def using equator_angle[OF assms] by (intro hav_angle)
  have a: "sin ((0 - 0) * pi / 180 / 2) * sin ((0 - 0) * pi / 180 / 2)
           + cos (0 * pi / 180) * cos (0 * pi / 180)
             * sin ((q - 0) * pi / 180 / 2) * sin ((q - 0) * pi / 180 / 2) = (sin t)\<^sup>2"
    by (simp add: t_def power2_eq_square)
  have "calculateDistance 0 0 0 q = 6371 * (2 * t)"
    unfolding calculateDistance_def Let_def a h ..
  then show ?thesis by (simp add: t_def)
qed

lemma turf_distance_equator:
  assumes "0 \<le> q" "q < 180"
  shows "turf_distance (0, 0) (q, 0) = 6371.0088 * (q * pi / 180)"
proof -
  have "turf_distance (0, 0) (q, 0) = 6371.0088 / 6371 * calculateDistance 0 0 0 q"
    using assms by (intro turf_distance_calculateDistance) simp_all
  then show ?thesis by (simp add: calculateDistance_equator[OF assms])
qed

lemma turf_distance_antimeridian: "turf_distance (- 180, 0) (180, 0) = 0"
  by (simp add: turf_distance_def Let_def degreesToRadians_def js_rem_self js_rem_small
      atan2_def radiansToLength_def)

lemma round_100_calc: "Math_round (3 * calculateDistance 0 0 0 100) = 33358"
proof -
  have "calculateDistance 0 0 0 100 = 6371 * (100 * pi / 180)"
    by (rule calculateDistance_equator) simp_all
  then show ?thesis
    using pi_bounds unfolding Math_round_def by (simp add: floor_eq_iff)
qed

lemma round_100_turf: "Math_round (turf_distance (0, 0) (100, 0) * 3) = 33359"
proof -
  have "turf_distance (0, 0) (100, 0) = 6371.0088 * (100 * pi / 180)"
    by (rule turf_distance_equator) simp_all
  then show ?thesis
    using pi_bounds unfolding Math_round_def by (simp add: floor_eq_iff)
qed

subsection \<open>A destination lies at its distance\<close>

text \<open>
  The point that \<open>destination\<close> projects from an origin at a distance \<open>d\<close> is, by the
  library's own \<open>distance\<close>, \<open>d\<close> away from the origin, whatever the bearing.
\<close>

lemma js_rem_shift: "\<exists>k::int. js_rem x m = x - m * of_int k"
  by (auto simp add: js_rem_def)

lemma sin_half_sq: "(sin (u / 2))\<^sup>2 = (1 - cos u) / 2" for u :: real
  using cos_double_sin[of "u / 2"] by simp

lemma cos_shift: "cos (t - 2 * pi * of_int k) = cos t"
proof -
  have "cos (2 * pi * of_int k) = 1" "sin (2 * pi * of_int k) = 0"
    using cos_int_2pin[of k] sin_int_2pin[of k] by (simp_all add: mult.assoc)
  then show ?thesis by (simp add: cos_diff)
qed

lemma cos_atan2: "cos (atan2 y x) * sqrt (x\<^sup>2 + y\<^sup>2) = x"
proof -
  consider "0 < x" | "x < 0" | "x = 0" by linarith
  then show ?thesis
  proof cases
    case 1
    have "x\<^sup>2 + y\<^sup>2 = x\<^sup>2 * (1 + (y / x)\<^sup>2)"
      using 1 by (simp add: field_simps power2_eq_square)
    then have "sqrt (x\<^sup>2 + y\<^sup>2) = x * sqrt (1 + (y / x)\<^sup>2)"
      using 1 by (simp add: real_sqrt_mult)
    moreover have "0 < sqrt (1 + (y / x)\<^sup>2)"
      by (simp add: add_pos_nonneg)
    ultimately show ?thesis using 1 by (simp add: atan2_def cos_arctan)
  next
    case 2
    have "x\<^sup>2 + y\<^sup>2 = x\<^sup>2 * (1 + (y / x)\<^sup>2)"
      using 2 by (simp add: field_simps power2_eq_square)
    then have "sqrt (x\<^sup>2 + y\<^sup>2) = - x * sqrt (1 + (y / x)\<^sup>2)"
      using 2 by (simp add: real_sqrt_mult)
    moreover have "0 < sqrt (1 + (y / x)\<^sup>2)"
      by (simp add: add_pos_nonneg)
    moreover have "cos (arctan (y / x) + pi) = - cos (arctan (y / x))"
      "cos (arctan (y / x) - pi) = - cos (arctan (y / x))"
      by (simp_all add: cos_add cos_diff)
    ultimately show ?thesis using 2 by (simp add: atan2_def cos_arctan)
  next
    case 3
    then show ?thesis by (simp add: atan2_def)
  qed
qed

lemma degreesToRadians_shift: "\<exists>k::int. degreesToRadians x = x * pi / 180 - 2 * pi * of_int k"
proof -
  obtain k :: int where "js_rem x 360 = x - 360 * of_int k" using js_rem_shift by blast
  then have "degreesToRadians x = (x - 360 * of_int k) * pi / 180"
    by (simp only: degreesToRadians_def)
  also have "\<dots> = x * pi / 180 - 2 * pi * of_int k"
    by (simp add: field_simps)
  finally show ?thesis ..
qed

lemma radiansToDegrees_shift: "\<exists>k::int. radiansToDegrees r * pi / 180 = r - 2 * pi * of_int k"
proof -
  obtain k :: int where "js_rem r (2 * pi) = r - 2 * pi * of_int k" using js_rem_shift by blast
  then have "radiansToDegrees r * pi / 180 = r - 2 * pi * of_int k"
    by (simp add: radiansToDegrees_def)
  then show ?thesis ..
qed

lemma sphere_identity:
  fixes s1 c1 sd cd st ct :: real
  assumes "s1\<^sup>2 + c1\<^sup>2 = 1" "sd\<^sup>2 + cd\<^sup>2 = 1" "st\<^sup>2 + ct\<^sup>2 = 1"
  shows "(s1 * cd + c1 * sd * ct)\<^sup>2 + (cd * c1 - s1 * sd * ct)\<^sup>2 + (st * sd)\<^sup>2 = 1"
proof -
  have "(s1 * cd + c1 * sd * ct)\<^sup>2 + (cd * c1 - s1 * sd * ct)\<^sup>2 + (st * sd)\<^sup>2
      = (s1\<^sup>2 + c1\<^sup>2) * cd\<^sup>2 + (s1\<^sup>2 + c1\<^sup>2) * (sd\<^sup>2 * ct\<^sup>2) + st\<^sup>2 * sd\<^sup>2"
    by (simp add: power2_eq_square algebra_simps)
  also have "\<dots> = cd\<^sup>2 + sd\<^sup>2 * (st\<^sup>2 + ct\<^sup>2)"
    unfolding assms(1) by (simp add: algebra_simps)
  also have "\<dots> = 1" unfolding assms(3) using assms(2) by (simp add: add.commute)
  finally show ?thesis .
qed

lemma destination_distance:
  assumes lat: "\<bar>lat0\<bar> \<le> 90" and d: "0 \<le> d" "d < factor_kilometers * pi"
  shows "turf_distance (lon0, lat0) (turf_destination (lon0, lat0) d bearing) = d"
proof -
  define p1 where "p1 = degreesToRadians lat0"
  define l1 where "l1 = degreesToRadians lon0"
  define th where "th = degreesToRadians bearing"
  define dl where "dl = lengthToRadians d"
  define z where "z = sin p1 * cos dl + cos p1 * sin dl * cos th"
  define w where "w = cos dl * cos p1 - sin p1 * sin dl * cos th"
  define v where "v = sin th * sin dl"
  define p2 where "p2 = arcsin z"
  define x where "x = cos dl - sin p1 * sin p2"
  define y where "y = sin th * sin dl * cos p1"
  define dlam where "dlam = atan2 y x"
  define lon2 where "lon2 = radiansToDegrees (l1 + dlam)"
  define lat2 where "lat2 = radiansToDegrees p2"
  have fk: "0 < factor_kilometers" by (simp add: factor_kilometers_def earthRadius_def)
  have dest: "turf_destination (lon0, lat0) d bearing = (lon2, lat2)"
    by (simp add: turf_destination_def Let_def lon2_def lat2_def dlam_def x_def y_def p2_def
        z_def p1_def l1_def th_def dl_def)
  have c1: "0 \<le> cos p1"
    unfolding p1_def using lat by (rule cos_degrees_nonneg)
  have sp: "z\<^sup>2 + w\<^sup>2 + v\<^sup>2 = 1"
    unfolding z_def w_def v_def by (rule sphere_identity) simp_all
  have "z\<^sup>2 \<le> 1"
  proof -
    have "0 \<le> w\<^sup>2 + v\<^sup>2" by simp
    then show ?thesis using sp by linarith
  qed
  then have zb: "- 1 \<le> z" "z \<le> 1"
    by (simp_all add: abs_le_iff[symmetric] abs_square_le_1 abs_le_D1 abs_le_D2 minus_le_iff)
  have s2: "sin p2 = z" unfolding p2_def using zb by (rule sin_arcsin)
  have c2: "cos p2 = sqrt (w\<^sup>2 + v\<^sup>2)"
  proof -
    have "cos p2 = sqrt (1 - z\<^sup>2)" unfolding p2_def using zb by (rule cos_arcsin)
    moreover have "1 - z\<^sup>2 = w\<^sup>2 + v\<^sup>2" using sp by linarith
    ultimately show ?thesis by simp
  qed
  have xw: "x = cos p1 * w"
  proof -
    have "x = cos dl * (1 - (sin p1)\<^sup>2) - sin p1 * cos p1 * sin dl * cos th"
      unfolding x_def s2 z_def by (simp add: power2_eq_square algebra_simps)
    also have "1 - (sin p1)\<^sup>2 = (cos p1)\<^sup>2" by (simp add: cos_squared_eq)
    finally show ?thesis unfolding w_def by (simp add: power2_eq_square algebra_simps)
  qed
  have yv: "y = cos p1 * v" by (simp add: y_def v_def)
  have "x\<^sup>2 + y\<^sup>2 = (cos p1)\<^sup>2 * (w\<^sup>2 + v\<^sup>2)"
    unfolding xw yv by (simp add: power2_eq_square algebra_simps)
  then have "sqrt (x\<^sup>2 + y\<^sup>2) = cos p1 * cos p2"
    using c1 by (simp add: real_sqrt_mult c2)
  then have key: "cos dlam * (cos p1 * cos p2) = x"
    using cos_atan2[of y x] by (simp add: dlam_def)
  obtain ka :: int where ka: "degreesToRadians (lat2 - lat0) = (lat2 - lat0) * pi / 180 - 2 * pi * of_int ka"
    using degreesToRadians_shift by blast
  obtain kb :: int where kb: "lat2 * pi / 180 = p2 - 2 * pi * of_int kb"
    unfolding lat2_def using radiansToDegrees_shift by blast
  obtain kc :: int where kc: "p1 = lat0 * pi / 180 - 2 * pi * of_int kc"
    unfolding p1_def using degreesToRadians_shift by blast
  obtain kd :: int where kd: "degreesToRadians (lon2 - lon0) = (lon2 - lon0) * pi / 180 - 2 * pi * of_int kd"
    using degreesToRadians_shift by blast
  obtain ke :: int where ke: "lon2 * pi / 180 = l1 + dlam - 2 * pi * of_int ke"
    unfolding lon2_def using radiansToDegrees_shift by blast
  obtain kf :: int where kf: "l1 = lon0 * pi / 180 - 2 * pi * of_int kf"
    unfolding l1_def using degreesToRadians_shift by blast
  obtain kg :: int where kg: "degreesToRadians lat2 = lat2 * pi / 180 - 2 * pi * of_int kg"
    using degreesToRadians_shift by blast
  have dLat: "degreesToRadians (lat2 - lat0) = (p2 - p1) - 2 * pi * of_int (ka + kb + kc)"
    using ka kb kc by (simp add: algebra_simps diff_divide_distrib)
  have dLon: "degreesToRadians (lon2 - lon0) = dlam - 2 * pi * of_int (kd + ke + kf)"
    using kd ke kf by (simp add: algebra_simps diff_divide_distrib)
  have lat2r: "degreesToRadians lat2 = p2 - 2 * pi * of_int (kg + kb)"
    using kg kb by (simp add: algebra_simps)
  have A: "(sin (degreesToRadians (lat2 - lat0) / 2))\<^sup>2 = (1 - cos (p2 - p1)) / 2"
    unfolding sin_half_sq dLat cos_shift ..
  have B: "(sin (degreesToRadians (lon2 - lon0) / 2))\<^sup>2 = (1 - cos dlam) / 2"
    unfolding sin_half_sq dLon cos_shift ..
  have C: "cos (degreesToRadians lat2) = cos p2"
    unfolding lat2r cos_shift ..
  have "(sin (degreesToRadians (lat2 - lat0) / 2))\<^sup>2
        + (sin (degreesToRadians (lon2 - lon0) / 2))\<^sup>2 * cos p1 * cos (degreesToRadians lat2)
      = (1 - cos (p2 - p1)) / 2 + (1 - cos dlam) / 2 * cos p1 * cos p2"
    unfolding A B C ..
  also have "\<dots> = (1 - (cos p2 * cos p1 + sin p2 * sin p1) + cos p1 * cos p2
                    - cos dlam * (cos p1 * cos p2)) / 2"
    unfolding cos_diff by (simp add: field_simps)
  also have "\<dots> = (1 - cos dl) / 2"
    unfolding key x_def by (simp add: algebra_simps)
  also have "\<dots> = (sin (dl / 2))\<^sup>2" by (simp add: sin_half_sq)
  finally have a: "(sin (degreesToRadians (lat2 - lat0) / 2))\<^sup>2
        + (sin (degreesToRadians (lon2 - lon0) / 2))\<^sup>2 * cos p1 * cos (degreesToRadians lat2)
      = (sin (dl / 2))\<^sup>2" .
  have h: "atan2 (sqrt ((sin (dl / 2))\<^sup>2)) (sqrt (1 - (sin (dl / 2))\<^sup>2)) = dl / 2"
  proof (rule hav_angle)
    show "0 \<le> dl / 2" using d fk by (simp add: dl_def lengthToRadians_def)
    have "d / factor_kilometers < pi" using d fk by (simp add: field_simps)
    then show "dl / 2 < pi / 2" by (simp add: dl_def lengthToRadians_def)
  qed
  have "turf_distance (lon0, lat0) (lon2, lat2) = radiansToLength (2 * (dl / 2))"
    unfolding turf_distance_def Let_def fst_conv snd_conv p1_def[symmetric] a h ..
  also have "\<dots> = d" using fk by (simp add: radiansToLength_def dl_def lengthToRadians_def)
  finally show ?thesis unfolding dest .
qed

subsection \<open>The straight-line fallback\<close>

lemma simulateRoute_eq:
  assumes u: "userLocation s = Some (ulat, ulon)" and l: "selectedLocation s = Some l"
    and v: "\<bar>ulat\<bar> \<le> 90" "\<bar>lat l\<bar> \<le> 90"
  shows "simulateRoute s =
    (let line = [(ulon, ulat), (lon l, lat l)];
         dist = turf_length line;
         nsteps = max 5 \<lfloor>dist / 0.5\<rfloor>;
         coords = map (\<lambda>i. the (turf_along line (dist * (of_nat i / of_int nsteps))))
                      [0 ..< nat nsteps + 1]
     in (fitBounds (map swap_pair coords)
          (s\<lparr>route := Some \<lparr>coordinates = coords,
                              duration = Math_round (dist * 3),
                              distance_km = toFixed1 dist,
                              steps = [\<lparr>instruction = ''Head to '' @ split_first (display_name l),
                                        distance_m = Math_round (dist * 1000)\<rparr>]\<rparr>\<rparr>))
        \<lparr>achievement := Some route_planner\<rparr>)"
proof -
  define line where "line = [(ulon, ulat), (lon l, lat l)]"
  define dist where "dist = turf_length line"
  define nsteps where "nsteps = max 5 \<lfloor>dist / 0.5\<rfloor>"
  have "dist = turf_distance (ulon, ulat) (lon l, lat l)"
    by (simp add: dist_def line_def)
  then have d0: "0 \<le> dist" using v by (simp add: turf_distance_nonneg)
  have n0: "0 < nsteps" unfolding nsteps_def by simp
  have "turf_along line (dist * (of_nat i / of_int nsteps)) \<noteq> None" for i :: nat
  proof -
    have "0 \<le> dist * (of_nat i / of_int nsteps)" using d0 n0 by simp
    then show ?thesis unfolding line_def by (simp only: along_two option.distinct not_False_eq_True)
  qed
  then have "None \<notin> set (map (\<lambda>i. turf_along line (dist * (of_nat i / of_int nsteps)))
             [0 ..< nat nsteps + 1])"
    by (metis (no_types, lifting) imageE list.set_map)
  then show ?thesis
    unfolding simulateRoute_def u l Let_def option.case prod.case fst_conv snd_conv
      line_def[symmetric] dist_def[symmetric] nsteps_def[symmetric]
    by (simp add: comp_def del: upt_Suc)
qed

lemma fitBounds_fields [simp]:
  "route (fitBounds ps s) = route s"
  "userLocation (fitBounds ps s) = userLocation s"
  "selectedLocation (fitBounds ps s) = selectedLocation s"
  by (simp_all add: fitBounds_def emit_def)

lemma simulateRoute_path_lemma:
  assumes u: "userLocation s = Some (ulat, ulon)" and l: "selectedLocation s = Some l"
    and v: "\<bar>ulat\<bar> \<le> 90" "\<bar>lat l\<bar> \<le> 90"
  shows "\<exists>r. route (simulateRoute s) = Some r
     \<and> length (coordinates r)
         = nat (max 5 \<lfloor>turf_length [(ulon, ulat), (lon l, lat l)] / 0.5\<rfloor>) + 1
     \<and> 6 \<le> length (coordinates r)
     \<and> (\<forall>i < length (coordinates r).
           turf_along [(ulon, ulat), (lon l, lat l)]
             (turf_length [(ulon, ulat), (lon l, lat l)]
              * (of_nat i / of_int (max 5 \<lfloor>turf_length [(ulon, ulat), (lon l, lat l)] / 0.5\<rfloor>)))
           = Some (coordinates r ! i))
     \<and> coordinates r ! 0 = (ulon, ulat)
     \<and> last (coordinates r)
         = (if turf_length [(ulon, ulat), (lon l, lat l)] = 0 then (ulon, ulat) else (lon l, lat l))"
proof -
  define line where "line = [(ulon, ulat), (lon l, lat l)]"
  define dist where "dist = turf_length line"
  define nsteps where "nsteps = max 5 \<lfloor>dist / 0.5\<rfloor>"
  define coords where "coords = map (\<lambda>i. the (turf_along line (dist * (of_nat i / of_int nsteps))))
                      [0 ..< nat nsteps + 1]"
  have dd: "dist = turf_distance (ulon, ulat) (lon l, lat l)"
    by (simp add: dist_def line_def)
  then have d0: "0 \<le> dist" using v by (simp add: turf_distance_nonneg)
  have n5: "5 \<le> nsteps" unfolding nsteps_def by simp
  have len: "length coords = nat nsteps + 1" by (simp add: coords_def)
  have al: "turf_along line (dist * (of_nat i / of_int nsteps)) = Some (coords ! i)"
    if "i < length coords" for i
  proof -
    have "0 \<le> dist * (of_nat i / of_int nsteps)" using d0 n5 by simp
    then have "turf_along line (dist * (of_nat i / of_int nsteps)) \<noteq> None"
      unfolding line_def by (simp only: along_two option.distinct not_False_eq_True)
    moreover have "coords ! i = the (turf_along line (dist * (of_nat i / of_int nsteps)))"
      using that unfolding coords_def by (simp add: nth_append del: upt_Suc)
    ultimately show ?thesis by simp
  qed
  have first: "coords ! 0 = (ulon, ulat)"
  proof -
    have "turf_along line (dist * (of_nat 0 / of_int nsteps)) = Some (coords ! 0)"
      by (rule al) (simp add: len)
    then show ?thesis by (simp add: line_def along_two)
  qed
  have lst: "last coords = (if dist = 0 then (ulon, ulat) else (lon l, lat l))"
  proof -
    have ne: "coords \<noteq> []" using len by auto
    have "turf_along line (dist * (of_nat (nat nsteps) / of_int nsteps)) = Some (coords ! nat nsteps)"
      by (rule al) (simp add: len)
    moreover have "dist * (of_nat (nat nsteps) / of_int nsteps) = dist" using n5 by simp
    ultimately have "Some (coords ! nat nsteps) = turf_along line dist" by simp
    also have "\<dots> = Some (if dist = 0 then (ulon, ulat) else (lon l, lat l))"
      using d0 by (simp add: line_def along_two dd)
    finally show ?thesis using ne len by (simp add: last_conv_nth)
  qed
  have "route (simulateRoute s) = Some \<lparr>coordinates = coords,
                              duration = Math_round (dist * 3),
                              distance_km = toFixed1 dist,
                              steps = [\<lparr>instruction = ''Head to '' @ split_first (display_name l),
                                        distance_m = Math_round (dist * 1000)\<rparr>]\<rparr>"
    unfolding simulateRoute_eq[OF u l v] Let_def line_def[symmetric] dist_def[symmetric]
      nsteps_def[symmetric] coords_def[symmetric]
    by simp
  moreover have "6 \<le> length coords" using len n5 by simp
  ultimately show ?thesis
    using len al first lst
    unfolding line_def[symmetric] dist_def[symmetric] nsteps_def[symmetric]
    by simp
qed

lemma trip_fields [simp]:
  "userLocation (trip u l) = Some u"
  "selectedLocation (trip u l) = Some l"
  "route (trip u l) = None"
  "achievement (trip u l) = None"
  by (simp_all add: trip_def state0_def)

lemma on_equator_fields [simp]:
  "lat (on_equator q) = 0" "lon (on_equator q) = q"
  by (simp_all add: on_equator_def)

lemma simulateRoute_duration_lemma:
  assumes u: "userLocation s = Some (ulat, ulon)" and l: "selectedLocation s = Some l"
    and v: "\<bar>ulat\<bar> \<le> 90" "\<bar>lat l\<bar> \<le> 90"
  shows "\<exists>r. route (simulateRoute s) = Some r
     \<and> duration r = Math_round (turf_distance (ulon, ulat) (lon l, lat l) * 3)"
  unfolding simulateRoute_eq[OF u l v] Let_def by simp

lemma short_length: "turf_length [(0, 0), (0.01, 0)] = 6371.0088 * (0.01 * pi / 180)"
proof -
  have "turf_distance (0, 0) (0.01, 0) = 6371.0088 * (0.01 * pi / 180)"
    by (rule turf_distance_equator) simp_all
  then show ?thesis by (simp only: turf_length.simps add_0_right)
qed

lemma short_steps: "max 5 \<lfloor>turf_length [(0, 0), (0.01, 0)] / 0.5\<rfloor> = 5"
proof -
  have "\<lfloor>6371.0088 * (0.01 * pi / 180) / 0.5\<rfloor> = (2::int)"
    using pi_bounds by (simp add: floor_eq_iff)
  then show ?thesis unfolding short_length by simp
qed

lemma short_positive: "turf_length [(0, 0), (0.01, 0)] \<noteq> 0"
  unfolding short_length by simp

subsection \<open>Claims on directions\<close>

text \<open>
  C1. The claim: whenever the routing request fails, the service answers with a code other
  than \<open>Ok\<close>, or the answer holds no route, the fallback synthesises a route, so that a
  route is always produced. The handler calls \<open>simulateRoute\<close> in its \<open>catch\<close> block only.
  For a user in San Francisco and the destination Oakland: an answer with the code
  \<open>NoRoute\<close>, and an answer \<open>Ok\<close> with an empty list of routes, both leave the route
  absent; a request that throws does produce a route.
\<close>

theorem refused_route_leaves_no_route:
  "route (handleGetDirections (Got \<lparr>code = ''NoRoute'', routes = None\<rparr>)
            (trip (37.7749, -122.4194) oakland)) = None
   \<and> route (handleGetDirections (Got \<lparr>code = ''Ok'', routes = Some []\<rparr>)
            (trip (37.7749, -122.4194) oakland)) = None
   \<and> route (handleGetDirections Threw (trip (37.7749, -122.4194) oakland)) \<noteq> None"
proof -
  have "\<exists>r. route (simulateRoute (emit e (trip (37.7749, -122.4194) oakland))) = Some r" for e
    using simulateRoute_duration_lemma[of "emit e (trip (37.7749, -122.4194) oakland)"
        "37.7749" "-122.4194" oakland]
    by (auto simp add: oakland_def)
  then show ?thesis
    by (auto simp add: handleGetDirections_def Let_def)
qed

text \<open>
  C2 (as amended). For a user location and a destination with latitudes in [-90, 90] and
  longitudes in [-180, 180], the fallback produces a route whose duration in minutes is
  \<open>Math.round\<close> of three times the length that the geometry library gives the line, and
  that length is the Haversine distance on a sphere of radius 6371.0088 km: it is
  \<open>calculateDistance\<close> of the two places scaled by 6371.0088 / 6371.
\<close>

theorem simulateRoute_duration:
  assumes "userLocation s = Some (ulat, ulon)" and "selectedLocation s = Some l"
    and "\<bar>ulat\<bar> \<le> 90" and "\<bar>ulon\<bar> \<le> 180" and "\<bar>lat l\<bar> \<le> 90" and "\<bar>lon l\<bar> \<le> 180"
  shows "\<exists>r. route (simulateRoute s) = Some r
     \<and> duration r = Math_round (3 * turf_length [(ulon, ulat), (lon l, lat l)])
     \<and> turf_length [(ulon, ulat), (lon l, lat l)]
         = 6371.0088 / 6371 * calculateDistance ulat ulon (lat l) (lon l)"
proof -
  have tl: "turf_length [(ulon, ulat), (lon l, lat l)] = turf_distance (ulon, ulat) (lon l, lat l)"
    by simp
  obtain r where r: "route (simulateRoute s) = Some r"
    and "duration r = Math_round (turf_distance (ulon, ulat) (lon l, lat l) * 3)"
    using simulateRoute_duration_lemma[OF assms(1,2,3,5)] by blast
  then have d: "duration r = Math_round (3 * turf_length [(ulon, ulat), (lon l, lat l)])"
    unfolding tl by (simp only: mult.commute)
  have e: "turf_length [(ulon, ulat), (lon l, lat l)]
      = 6371.0088 / 6371 * calculateDistance ulat ulon (lat l) (lon l)"
    unfolding tl using assms(3,5,4,6) by (rule turf_distance_calculateDistance)
  from r d e show ?thesis by blast
qed

text \<open>
  From (0, 0) to (0, 100) along the equator the duration is 33359 minutes, while three
  times \<open>calculateDistance\<close>, with its radius of 6371 km, rounds to 33358.
\<close>

theorem simulateRoute_duration_witness:
  "\<exists>r. route (simulateRoute (trip (0, 0) (on_equator 100))) = Some r \<and> duration r = 33359"
proof -
  have "Math_round (3 * turf_length [(0, 0), (lon (on_equator 100), lat (on_equator 100))]) = 33359"
    using round_100_turf by (simp add: mult.commute)
  then show ?thesis
    using simulateRoute_duration [of "trip (0, 0) (on_equator 100)" 0 0 "on_equator 100"]
    by auto
qed

theorem fallback_duration_counterexample:
  "duration (the (route (simulateRoute (trip (0, 0) (on_equator 100))))) = 33359
   \<and> Math_round (3 * calculateDistance 0 0 0 100) = 33358"
proof -
  obtain r where "route (simulateRoute (trip (0, 0) (on_equator 100))) = Some r"
    and "duration r = Math_round (turf_distance (0, 0) (lon (on_equator 100), lat (on_equator 100)) * 3)"
    using simulateRoute_duration_lemma[of "trip (0, 0) (on_equator 100)" 0 0 "on_equator 100"]
    by auto
  then show ?thesis using round_100_turf round_100_calc by simp
qed

text \<open>
  C3 (as amended). For a user location and a destination with latitudes in [-90, 90], the
  fallback produces a route; with \<open>n = max(5, floor(length / 0.5))\<close> steps its path has
  \<open>n + 1\<close> positions, hence at least 2; position \<open>i\<close> is the point the library finds at
  \<open>length * i / n\<close> along the line; position 0 is the user's position; and when the line
  has a length other than zero the last position is the destination.
\<close>

theorem simulateRoute_path:
  assumes "userLocation s = Some (ulat, ulon)" and "selectedLocation s = Some l"
    and "\<bar>ulat\<bar> \<le> 90" and "\<bar>lat l\<bar> \<le> 90"
  shows "\<exists>r. route (simulateRoute s) = Some r
     \<and> length (coordinates r)
         = nat (max 5 \<lfloor>turf_length [(ulon, ulat), (lon l, lat l)] / 0.5\<rfloor>) + 1
     \<and> 2 \<le> length (coordinates r)
     \<and> (\<forall>i < length (coordinates r).
           turf_along [(ulon, ulat), (lon l, lat l)]
             (turf_length [(ulon, ulat), (lon l, lat l)]
              * (of_nat i / of_int (max 5 \<lfloor>turf_length [(ulon, ulat), (lon l, lat l)] / 0.5\<rfloor>)))
           = Some (coordinates r ! i))
     \<and> coordinates r ! 0 = (ulon, ulat)
     \<and> (turf_length [(ulon, ulat), (lon l, lat l)] \<noteq> 0
          \<longrightarrow> last (coordinates r) = (lon l, lat l))"
  using simulateRoute_path_lemma[OF assms] by force

text \<open>
  A trip of about 1.1 km has 5 steps and a path of 6 positions, not 5. A trip from
  longitude -180 to longitude 180 on the equator has length 0, and its path ends at the
  user's position \<open>(-180, 0)\<close>, not at the destination's \<open>(180, 0)\<close>.
\<close>

theorem simulateRoute_path_witness:
  "\<exists>r. route (simulateRoute (trip (0, 0) (on_equator 0.01))) = Some r
     \<and> length (coordinates r) = 6
     \<and> coordinates r ! 0 = (0, 0)
     \<and> last (coordinates r) = (0.01, 0)"
  using simulateRoute_path [of "trip (0, 0) (on_equator 0.01)" 0 0 "on_equator 0.01"]
    short_steps short_positive
  by auto

theorem fallback_path_counterexample:
  "length (coordinates (the (route (simulateRoute (trip (0, 0) (on_equator 0.01)))))) = 6
   \<and> max 5 \<lfloor>turf_length [(0, 0), (0.01, 0)] / 0.5\<rfloor> = 5
   \<and> last (coordinates (the (route (simulateRoute (trip (0, - 180) (on_equator 180))))))
       = (- 180, 0)"
proof -
  obtain r where "route (simulateRoute (trip (0, 0) (on_equator 0.01))) = Some r"
    and "length (coordinates r) = nat (max 5 \<lfloor>turf_length [(0, 0), (0.01, 0)] / 0.5\<rfloor>) + 1"
    using simulateRoute_path_lemma[of "trip (0, 0) (on_equator 0.01)" 0 0 "on_equator 0.01"]
    by auto
  moreover
  obtain r' where "route (simulateRoute (trip (0, - 180) (on_equator 180))) = Some r'"
    and "last (coordinates r') = (if turf_length [(- 180, 0), (180, 0)] = 0
                                   then (- 180, 0) else (180, 0))"
    using simulateRoute_path_lemma[of "trip (0, - 180) (on_equator 180)" 0 "- 180" "on_equator 180"]
    by auto
  ultimately show ?thesis
    using short_steps turf_distance_antimeridian by simp
qed

text \<open>
  C10. When the user location or the selected destination is absent, a directions request
  and the straight-line fallback both return the state they were given: no route is set,
  no achievement is signalled, nothing is asked of the map.
\<close>

theorem directions_noop:
  "userLocation s = None \<or> selectedLocation s = None
   \<Longrightarrow> handleGetDirections response s = s \<and> simulateRoute s = s"
  by (auto simp add: handleGetDirections_def simulateRoute_def split: option.splits)

theorem directions_noop_witness:
  "selectedLocation (state0\<lparr>userLocation := Some defaultLocation\<rparr>) = None
   \<and> handleGetDirections Threw (state0\<lparr>userLocation := Some defaultLocation\<rparr>)
       = state0\<lparr>userLocation := Some defaultLocation\<rparr>
   \<and> simulateRoute (state0\<lparr>userLocation := Some defaultLocation\<rparr>)
       = state0\<lparr>userLocation := Some defaultLocation\<rparr>
   \<and> userLocation (state0\<lparr>selectedLocation := Some oakland\<rparr>) = None
   \<and> handleGetDirections Threw (state0\<lparr>selectedLocation := Some oakland\<rparr>)
       = state0\<lparr>selectedLocation := Some oakland\<rparr>"
  using directions_noop [of "state0\<lparr>userLocation := Some defaultLocation\<rparr>" Threw]
    directions_noop [of "state0\<lparr>selectedLocation := Some oakland\<rparr>" Threw]
  by (simp add: state0_def)

subsection \<open>Nearby places\<close>

lemma upt_5: "[0 ..< 5] = [0, 1, 2, 3, 4]"
  by (simp add: upt_rec)

lemma mockPlace_distance:
  assumes "0 \<le> rnd (5 * i)" "rnd (5 * i) < 1"
  shows "0.5 \<le> distance (mockPlace rnd lat0 lon0 i)" "distance (mockPlace rnd lat0 lon0 i) < 5"
  using assms by (simp_all add: mockPlace_def Let_def)

lemma recommendations_mock:
  "recommendations (createMockPlaces rnd lat0 lon0 s) = map (mockPlace rnd lat0 lon0) [0, 1, 2, 3, 4]"
  by (simp add: createMockPlaces_def upt_5 del: upt_Suc)

lemma split_on_nonempty: "split_on c s \<noteq> []"
  by (induction s) (auto split: list.splits)

lemma split_first_takeWhile: "split_first s = takeWhile (\<lambda>c. c \<noteq> CHR '','') s"
proof -
  have "(case split_on c s of [] \<Rightarrow> [] | w # ws \<Rightarrow> w) = takeWhile (\<lambda>x. x \<noteq> c) s" for c
    by (induction s) (auto split: list.splits)
  then show ?thesis by (simp add: split_first_def)
qed

lemma length_enumerate_map [simp]: "length (enumerate_map f xs) = length xs"
  by (simp add: enumerate_map_def)

lemma nth_enumerate_map: "i < length xs \<Longrightarrow> enumerate_map f xs ! i = f i (xs ! i)"
  by (simp add: enumerate_map_def)

lemma map_enumerate_map:
  assumes "\<And>i x. h (f i x) = g x"
  shows "map h (enumerate_map f xs) = map g xs"
  by (rule nth_equalityI) (simp_all add: nth_enumerate_map assms)

lemma set_enumerate_map: "set (enumerate_map f xs) = {f i (xs ! i) | i. i < length xs}"
proof -
  have "enumerate_map f xs = map (\<lambda>i. f i (xs ! i)) [0 ..< length xs]"
    by (rule nth_equalityI) (simp_all add: nth_enumerate_map)
  then show ?thesis by auto
qed

lemma recommendations_overpass:
  "elements \<noteq> [] \<Longrightarrow>
   recommendations (fetchNearbyPlaces rnd (Got elements) answer2 lat0 lon0 s)
   = sort_key distance (enumerate_map (overpassPlace rnd lat0 lon0)
                          (take 10 (filter retained elements)))"
  by (simp add: fetchNearbyPlaces_def)

lemma recommendations_nominatim:
  "data \<noteq> [] \<Longrightarrow>
   recommendations (fallbackToNominatim rnd (Got data) lat0 lon0 s)
   = sort_key distance (enumerate_map (nominatimPlace rnd lat0 lon0) data)"
  by (simp add: fallbackToNominatim_def)

lemma sorted_first_two_tiers:
  "elements \<noteq> [] \<Longrightarrow>
     sorted (map distance (recommendations (fetchNearbyPlaces rnd (Got elements) answer2 lat0 lon0 s)))"
  "data \<noteq> [] \<Longrightarrow>
     sorted (map distance (recommendations (fallbackToNominatim rnd (Got data) lat0 lon0 s)))"
  by (simp_all add: recommendations_overpass recommendations_nominatim)

lemma id_overpassPlace [simp]: "id_p (overpassPlace rnd lat0 lon0 i e) = IdNumber (id_e e)"
  by (simp add: overpassPlace_def Let_def)

lemma retained_iff:
  "retained e \<longleftrightarrow>
     (\<exists>t. tags e = Some t
        \<and> (\<exists>k \<in> {''name'', ''tourism'', ''historic'', ''amenity''}. \<exists>v. t k = Some v \<and> v \<noteq> []))"
  by (auto simp add: retained_def tag_def split: option.splits if_splits)

lemma retained_examples: "\<not> retained unnamed_park" "retained corner_cafe"
  by (simp_all add: retained_def tag_def unnamed_park_def corner_cafe_def)

lemma fields_nominatimPlace:
  "id_p (nominatimPlace rnd lat0 lon0 i p) = IdNumber (place_id p)"
  "name (nominatimPlace rnd lat0 lon0 i p) = takeWhile (\<lambda>c. c \<noteq> CHR '','') (display_name p)"
  "description (nominatimPlace rnd lat0 lon0 i p)
     = (case place_type p of None \<Rightarrow> ''Tourist Attraction''
        | Some ty \<Rightarrow> if ty = [] then ''Tourist Attraction'' else ty)"
  "category (nominatimPlace rnd lat0 lon0 i p)
     = pick [''Historical'', ''Cultural'', ''Nature''] (rnd (4 * i + 3))"
  by (simp_all add: nominatimPlace_def split_first_takeWhile)

subsection \<open>Claims on nearby places\<close>

text \<open>
  C4 (as amended). For an origin of latitude in [-90, 90] and draws of \<open>Math.random\<close> in
  [0, 1), the mock lookup sets exactly 5 places; their names are Central Park, Museum of
  Art, Historic Tower, Botanical Garden, City Square, in this order; the distance recorded
  in each lies in [0.5, 5] km and is the great-circle distance, as the library measures
  it, between the origin and the place's location, which the library's destination-point
  projection made; and the lookup ends in these mock places whenever the feature service
  fails or returns no feature and the geocoding service fails or returns no record.
\<close>

theorem createMockPlaces_five:
  assumes "\<forall>k. 0 \<le> rnd k \<and> rnd k < 1" and "\<bar>lat0\<bar> \<le> 90"
  shows "length (recommendations (createMockPlaces rnd lat0 lon0 s)) = 5
    \<and> map name (recommendations (createMockPlaces rnd lat0 lon0 s))
        = [''Central Park'', ''Museum of Art'', ''Historic Tower'', ''Botanical Garden'',
           ''City Square'']
    \<and> (\<forall>p \<in> set (recommendations (createMockPlaces rnd lat0 lon0 s)).
          0.5 \<le> distance p \<and> distance p \<le> 5
          \<and> turf_distance (lon0, lat0) (swap_pair (location_p p)) = distance p)
    \<and> (\<forall>i < 5. location_p (recommendations (createMockPlaces rnd lat0 lon0 s) ! i)
          = swap_pair (turf_destination (lon0, lat0)
              (distance (recommendations (createMockPlaces rnd lat0 lon0 s) ! i))
              (rnd (5 * i + 1) * 360)))
    \<and> fetchNearbyPlaces rnd Threw Threw lat0 lon0 s = createMockPlaces rnd lat0 lon0 s
    \<and> fetchNearbyPlaces rnd (Got []) Threw lat0 lon0 s = createMockPlaces rnd lat0 lon0 s
    \<and> fetchNearbyPlaces rnd Threw (Got []) lat0 lon0 s = createMockPlaces rnd lat0 lon0 s
    \<and> fetchNearbyPlaces rnd (Got []) (Got []) lat0 lon0 s = createMockPlaces rnd lat0 lon0 s"
proof -
  have len: "length (recommendations (createMockPlaces rnd lat0 lon0 s)) = 5"
    by (simp add: recommendations_mock)
  have names: "map name (recommendations (createMockPlaces rnd lat0 lon0 s))
        = [''Central Park'', ''Museum of Art'', ''Historic Tower'', ''Botanical Garden'',
           ''City Square'']"
    by (simp add: recommendations_mock mockPlace_def Let_def)
  have dist: "\<forall>p \<in> set (recommendations (createMockPlaces rnd lat0 lon0 s)).
          0.5 \<le> distance p \<and> distance p \<le> 5
          \<and> turf_distance (lon0, lat0) (swap_pair (location_p p)) = distance p"
  proof
    fix p assume "p \<in> set (recommendations (createMockPlaces rnd lat0 lon0 s))"
    then obtain i where p: "p = mockPlace rnd lat0 lon0 i"
      by (auto simp add: recommendations_mock)
    have "0 \<le> rnd (5 * i)" "rnd (5 * i) < 1" using assms(1) by simp_all
    then have b: "0.5 \<le> distance p" "distance p < 5"
      unfolding p by (rule mockPlace_distance)+
    have "5 < factor_kilometers * pi"
    proof -
      have "5 < 6371.0088 * (2 :: real)" by simp
      also have "\<dots> \<le> 6371.0088 * pi" using pi_ge_two by simp
      finally show ?thesis by (simp add: factor_kilometers_def earthRadius_def)
    qed
    then have "turf_distance (lon0, lat0)
                 (turf_destination (lon0, lat0) (distance p) (rnd (5 * i + 1) * 360)) = distance p"
      using b assms(2) by (intro destination_distance) simp_all
    moreover have "swap_pair (location_p p)
        = turf_destination (lon0, lat0) (distance p) (rnd (5 * i + 1) * 360)"
      by (simp add: p mockPlace_def Let_def swap_pair_def)
    ultimately show "0.5 \<le> distance p \<and> distance p \<le> 5
          \<and> turf_distance (lon0, lat0) (swap_pair (location_p p)) = distance p"
      using b by simp
  qed
  have loc: "\<forall>i < 5. location_p (recommendations (createMockPlaces rnd lat0 lon0 s) ! i)
          = swap_pair (turf_destination (lon0, lat0)
              (distance (recommendations (createMockPlaces rnd lat0 lon0 s) ! i))
              (rnd (5 * i + 1) * 360))"
  proof (intro allI impI)
    fix i :: nat assume "i < 5"
    then have "recommendations (createMockPlaces rnd lat0 lon0 s) ! i = mockPlace rnd lat0 lon0 i"
      by (simp add: createMockPlaces_def del: upt_Suc)
    then show "location_p (recommendations (createMockPlaces rnd lat0 lon0 s) ! i)
          = swap_pair (turf_destination (lon0, lat0)
              (distance (recommendations (createMockPlaces rnd lat0 lon0 s) ! i))
              (rnd (5 * i + 1) * 360))"
      by (simp add: mockPlace_def Let_def swap_pair_def)
  qed
  have casc: "fetchNearbyPlaces rnd Threw Threw lat0 lon0 s = createMockPlaces rnd lat0 lon0 s"
    "fetchNearbyPlaces rnd (Got []) Threw lat0 lon0 s = createMockPlaces rnd lat0 lon0 s"
    "fetchNearbyPlaces rnd Threw (Got []) lat0 lon0 s = createMockPlaces rnd lat0 lon0 s"
    "fetchNearbyPlaces rnd (Got []) (Got []) lat0 lon0 s = createMockPlaces rnd lat0 lon0 s"
    by (simp_all add: fetchNearbyPlaces_def fallbackToNominatim_def)
  from len names dist loc casc show ?thesis by blast
qed

theorem createMockPlaces_five_witness:
  "(\<forall>k. 0 \<le> far_then_near k \<and> far_then_near k < 1)
   \<and> map name (recommendations (fetchNearbyPlaces far_then_near (Got []) (Got []) 37.7749 (-122.4194) state0))
        = [''Central Park'', ''Museum of Art'', ''Historic Tower'', ''Botanical Garden'',
           ''City Square'']
   \<and> map distance (recommendations (fetchNearbyPlaces far_then_near (Got []) (Got []) 37.7749 (-122.4194) state0))
        = [4.55, 0.95, 0.95, 0.95, 0.95]"
proof -
  have r: "\<forall>k. 0 \<le> far_then_near k \<and> far_then_near k < 1"
    by (simp add: far_then_near_def)
  have "map distance (recommendations (createMockPlaces far_then_near 37.7749 (-122.4194) state0))
        = [4.55, 0.95, 0.95, 0.95, 0.95]"
    by (simp add: recommendations_mock mockPlace_def Let_def far_then_near_def)
  moreover have v: "\<bar>37.7749 :: real\<bar> \<le> 90" by simp
  ultimately show ?thesis
    using r createMockPlaces_five [OF r v, of "-122.4194" state0] by simp
qed

text \<open>
  The claim as first stated ends: discovery is not empty when the first two tiers yield
  nothing. The first tier looks at the number of features before it filters them. When
  the feature service returns one node without tags, as it does for the nodes of a way,
  the node fails the filter, the list of places set is empty, and neither the geocoding
  service nor the mock lookup is reached, whatever the geocoding service would answer.
\<close>

theorem untagged_features_end_discovery:
  "\<not> retained way_node
   \<and> recommendations (fetchNearbyPlaces far_then_near (Got [way_node]) (Got [])
        37.7749 (-122.4194) state0) = []
   \<and> recommendations (fetchNearbyPlaces far_then_near (Got [way_node]) Threw
        37.7749 (-122.4194) state0) = []
   \<and> showRecommendations (fetchNearbyPlaces far_then_near (Got [way_node]) (Got [])
        37.7749 (-122.4194) state0)"
proof -
  have "\<not> retained way_node" by (simp add: retained_def way_node_def)
  then show ?thesis by (simp add: fetchNearbyPlaces_def enumerate_map_def)
qed

text \<open>
  C5. The claim: the places a lookup sets are in non-decreasing order of distance,
  whichever tier made them. The first two tiers sort (\<open>sorted_first_two_tiers\<close>); the
  mock tier does not. With both services failing and a first draw of 0.9 followed by
  draws of 0.1, the distances are 4.55, 0.95, 0.95, 0.95, 0.95.
\<close>

theorem mock_places_unsorted:
  "map distance (recommendations
      (fetchNearbyPlaces far_then_near Threw Threw 37.7749 (-122.4194) state0))
     = [4.55, 0.95, 0.95, 0.95, 0.95]
   \<and> \<not> sorted (map distance (recommendations
      (fetchNearbyPlaces far_then_near Threw Threw 37.7749 (-122.4194) state0)))"
proof -
  have "map distance (recommendations
      (fetchNearbyPlaces far_then_near Threw Threw 37.7749 (-122.4194) state0))
     = [4.55, 0.95, 0.95, 0.95, 0.95]"
    by (simp add: fetchNearbyPlaces_def fallbackToNominatim_def recommendations_mock
        mockPlace_def Let_def far_then_near_def)
  moreover have "\<not> sorted [4.55, 0.95, 0.95, 0.95, 0.95 :: real]"
    unfolding sorted2 by simp
  ultimately show ?thesis by (simp only: simp_thms)
qed

text \<open>
  C6 (as amended). When the feature service returns features, the places set are made
  from the first 10 features that pass the filter, one place each, so there are at most
  10; a feature passes exactly when it has tags and, among them, a non-empty \<open>name\<close>,
  \<open>tourism\<close>, \<open>historic\<close> or \<open>amenity\<close> tag. The tag \<open>leisure\<close> plays no part.
\<close>

theorem overpass_retained:
  assumes "elements \<noteq> []"
  shows "length (recommendations (fetchNearbyPlaces rnd (Got elements) answer2 lat0 lon0 s))
           = min 10 (length (filter retained elements))
    \<and> length (recommendations (fetchNearbyPlaces rnd (Got elements) answer2 lat0 lon0 s)) \<le> 10
    \<and> id_p ` set (recommendations (fetchNearbyPlaces rnd (Got elements) answer2 lat0 lon0 s))
        = (\<lambda>e. IdNumber (id_e e)) ` set (take 10 (filter retained elements))
    \<and> (\<forall>e. retained e \<longleftrightarrow>
          (\<exists>t. tags e = Some t
             \<and> (\<exists>k \<in> {''name'', ''tourism'', ''historic'', ''amenity''}.
                  \<exists>v. t k = Some v \<and> v \<noteq> [])))"
proof -
  let ?kept = "take 10 (filter retained elements)"
  have r: "recommendations (fetchNearbyPlaces rnd (Got elements) answer2 lat0 lon0 s)
      = sort_key distance (enumerate_map (overpassPlace rnd lat0 lon0) ?kept)"
    using assms by (rule recommendations_overpass)
  have l: "length (sort_key distance (enumerate_map (overpassPlace rnd lat0 lon0) ?kept))
      = min 10 (length (filter retained elements))"
    by (simp add: min.commute)
  have "map id_p (enumerate_map (overpassPlace rnd lat0 lon0) ?kept)
      = map (\<lambda>e. IdNumber (id_e e)) ?kept"
    by (rule map_enumerate_map) simp
  then have "set (map id_p (enumerate_map (overpassPlace rnd lat0 lon0) ?kept))
      = set (map (\<lambda>e. IdNumber (id_e e)) ?kept)"
    by (rule arg_cong)
  then have i: "id_p ` set (sort_key distance (enumerate_map (overpassPlace rnd lat0 lon0) ?kept))
      = (\<lambda>e. IdNumber (id_e e)) ` set ?kept"
    by simp
  show ?thesis unfolding r using l i retained_iff by auto
qed

theorem overpass_retained_witness:
  "[unnamed_park, corner_cafe] \<noteq> []
   \<and> length (recommendations (fetchNearbyPlaces far_then_near (Got [unnamed_park, corner_cafe])
        Threw 37.7749 (-122.4194) state0)) = 1
   \<and> id_p ` set (recommendations (fetchNearbyPlaces far_then_near (Got [unnamed_park, corner_cafe])
        Threw 37.7749 (-122.4194) state0)) = {IdNumber 8}"
  using overpass_retained [of "[unnamed_park, corner_cafe]" far_then_near Threw
      "37.7749" "-122.4194" state0]
  by (simp add: retained_examples) (simp add: corner_cafe_def)

text \<open>
  A park that has the tag \<open>leisure = park\<close> and no other is dropped; it being the only
  feature returned, the list of places set is empty.
\<close>

theorem unnamed_park_dropped:
  "tags unnamed_park = Some [''leisure'' \<mapsto> ''park'']
   \<and> \<not> retained unnamed_park
   \<and> recommendations (fetchNearbyPlaces far_then_near (Got [unnamed_park]) Threw
        37.7749 (-122.4194) state0) = []"
  by (simp add: retained_examples fetchNearbyPlaces_def enumerate_map_def)
    (simp add: unnamed_park_def)

text \<open>
  C7 (as amended). When the geocoding service returns records, there is one place for
  each, and every place comes from a record in this way: its name is the record's display
  name up to the first comma; its \<open>description\<close> is the record's type, or
  \<open>Tourist Attraction\<close> when the type is missing or empty; its \<open>category\<close> is picked
  from Historical, Cultural, Nature by a random draw.
\<close>

theorem nominatim_labels:
  assumes "data \<noteq> []"
  shows "length (recommendations (fallbackToNominatim rnd (Got data) lat0 lon0 s)) = length data
    \<and> (\<forall>q \<in> set (recommendations (fallbackToNominatim rnd (Got data) lat0 lon0 s)).
         \<exists>i < length data.
           id_p q = IdNumber (place_id (data ! i))
           \<and> name q = takeWhile (\<lambda>c. c \<noteq> CHR '','') (display_name (data ! i))
           \<and> description q = (case place_type (data ! i) of
                                None \<Rightarrow> ''Tourist Attraction''
                              | Some ty \<Rightarrow> if ty = [] then ''Tourist Attraction'' else ty)
           \<and> category q = pick [''Historical'', ''Cultural'', ''Nature''] (rnd (4 * i + 3)))"
proof -
  have r: "recommendations (fallbackToNominatim rnd (Got data) lat0 lon0 s)
      = sort_key distance (enumerate_map (nominatimPlace rnd lat0 lon0) data)"
    using assms by (rule recommendations_nominatim)
  have "\<exists>i < length data.
           id_p q = IdNumber (place_id (data ! i))
           \<and> name q = takeWhile (\<lambda>c. c \<noteq> CHR '','') (display_name (data ! i))
           \<and> description q = (case place_type (data ! i) of
                                None \<Rightarrow> ''Tourist Attraction''
                              | Some ty \<Rightarrow> if ty = [] then ''Tourist Attraction'' else ty)
           \<and> category q = pick [''Historical'', ''Cultural'', ''Nature''] (rnd (4 * i + 3))"
    if "q \<in> set (enumerate_map (nominatimPlace rnd lat0 lon0) data)" for q
  proof -
    from that obtain i where "i < length data" and "q = nominatimPlace rnd lat0 lon0 i (data ! i)"
      unfolding set_enumerate_map by blast
    then show ?thesis by (intro exI[of _ i]) (simp add: fields_nominatimPlace)
  qed
  then show ?thesis unfolding r by simp
qed

theorem nominatim_labels_witness:
  "[louvre] \<noteq> []
   \<and> map name (recommendations (fallbackToNominatim far_then_near (Got [louvre])
        48.8566 2.3522 state0)) = [''Louvre'']
   \<and> map description (recommendations (fallbackToNominatim far_then_near (Got [louvre])
        48.8566 2.3522 state0)) = [''museum'']"
  using nominatim_labels [of "[louvre]" far_then_near "48.8566" "2.3522" state0]
  by (simp add: fallbackToNominatim_def enumerate_map_def fields_nominatimPlace)
    (simp add: louvre_def)

text \<open>A record of type \<open>museum\<close> gives a place of category Historical.\<close>

theorem nominatim_category_random:
  "place_type louvre = Some ''museum''
   \<and> map category (recommendations (fallbackToNominatim far_then_near (Got [louvre])
        48.8566 2.3522 state0)) = [Some ''Historical'']"
  by (simp add: fallbackToNominatim_def enumerate_map_def fields_nominatimPlace)
    (simp add: louvre_def pick_def far_then_near_def)

end
